theory Spec2Isabelle
  imports Complex_Main
begin

section \<open>JavaScript numbers\<close>

text \<open>
  Every quantity of the simulation is a JavaScript number. A finite number is modelled
  by the real it denotes (rounding, overflow and the sign of zero are not modelled);
  the three special values are kept, because the code produces them on purpose
  (\<^verbatim>\<open>calculateVolume\<close> returns \<^verbatim>\<open>Infinity\<close>) and because division by zero
  does not fail in JavaScript. Zero is read as \<^verbatim>\<open>+0\<close>, and a constant expression
  such as \<^verbatim>\<open>1 / 3\<close> is the exact quotient.
\<close>

datatype jsnum = Fin real | PInf | NInf | NaN

instantiation jsnum :: "{plus, minus, uminus, times, inverse, ord}"
begin

fun plus_jsnum :: "jsnum \<Rightarrow> jsnum \<Rightarrow> jsnum" where
  "plus_jsnum (Fin a) (Fin b) = Fin (a + b)"
| "plus_jsnum NaN _ = NaN"
| "plus_jsnum _ NaN = NaN"
| "plus_jsnum PInf NInf = NaN"
| "plus_jsnum NInf PInf = NaN"
| "plus_jsnum PInf _ = PInf"
| "plus_jsnum _ PInf = PInf"
| "plus_jsnum NInf _ = NInf"
| "plus_jsnum _ NInf = NInf"

fun uminus_jsnum :: "jsnum \<Rightarrow> jsnum" where
  "uminus_jsnum (Fin a) = Fin (- a)"
| "uminus_jsnum PInf = NInf"
| "uminus_jsnum NInf = PInf"
| "uminus_jsnum NaN = NaN"

definition minus_jsnum :: "jsnum \<Rightarrow> jsnum \<Rightarrow> jsnum" where
  "minus_jsnum x y = x + (- y)"

fun times_jsnum :: "jsnum \<Rightarrow> jsnum \<Rightarrow> jsnum" where
  "times_jsnum (Fin a) (Fin b) = Fin (a * b)"
| "times_jsnum NaN _ = NaN"
| "times_jsnum _ NaN = NaN"
| "times_jsnum PInf (Fin b) = (if b = 0 then NaN else if 0 < b then PInf else NInf)"
| "times_jsnum NInf (Fin b) = (if b = 0 then NaN else if 0 < b then NInf else PInf)"
| "times_jsnum (Fin a) PInf = (if a = 0 then NaN else if 0 < a then PInf else NInf)"
| "times_jsnum (Fin a) NInf = (if a = 0 then NaN else if 0 < a then NInf else PInf)"
| "times_jsnum PInf PInf = PInf"
| "times_jsnum PInf NInf = NInf"
| "times_jsnum NInf PInf = NInf"
| "times_jsnum NInf NInf = PInf"

fun divide_jsnum :: "jsnum \<Rightarrow> jsnum \<Rightarrow> jsnum" where
  "divide_jsnum (Fin a) (Fin b) =
     (if b \<noteq> 0 then Fin (a / b)
      else if a = 0 then NaN else if 0 < a then PInf else NInf)"
| "divide_jsnum NaN _ = NaN"
| "divide_jsnum _ NaN = NaN"
| "divide_jsnum (Fin a) PInf = Fin 0"
| "divide_jsnum (Fin a) NInf = Fin 0"
| "divide_jsnum PInf (Fin b) = (if 0 \<le> b then PInf else NInf)"
| "divide_jsnum NInf (Fin b) = (if 0 \<le> b then NInf else PInf)"
| "divide_jsnum _ _ = NaN"

fun inverse_jsnum :: "jsnum \<Rightarrow> jsnum" where
  "inverse_jsnum (Fin b) = (if b \<noteq> 0 then Fin (1 / b) else PInf)"
| "inverse_jsnum NaN = NaN"
| "inverse_jsnum _ = Fin 0"

fun less_jsnum :: "jsnum \<Rightarrow> jsnum \<Rightarrow> bool" where
  "less_jsnum (Fin a) (Fin b) = (a < b)"
| "less_jsnum NaN _ = False"
| "less_jsnum _ NaN = False"
| "less_jsnum NInf (Fin b) = True"
| "less_jsnum NInf PInf = True"
| "less_jsnum (Fin a) PInf = True"
| "less_jsnum _ _ = False"

fun less_eq_jsnum :: "jsnum \<Rightarrow> jsnum \<Rightarrow> bool" where
  "less_eq_jsnum (Fin a) (Fin b) = (a \<le> b)"
| "less_eq_jsnum NaN _ = False"
| "less_eq_jsnum _ NaN = False"
| "less_eq_jsnum NInf _ = True"
| "less_eq_jsnum _ PInf = True"
| "less_eq_jsnum _ _ = False"

instance ..

end

text \<open>\<^verbatim>\<open>Math.PI\<close>, \<^verbatim>\<open>Math.sign\<close>, \<^verbatim>\<open>Math.min\<close> and \<^verbatim>\<open>Math.pow\<close>
  (the cases of ECMAScript's \<^verbatim>\<open>Number::exponentiate\<close>).\<close>

definition Math_PI :: jsnum where
  "Math_PI = Fin pi"

fun Math_sign :: "jsnum \<Rightarrow> jsnum" where
  "Math_sign (Fin x) = Fin (sgn x)"
| "Math_sign PInf = Fin 1"
| "Math_sign NInf = Fin (- 1)"
| "Math_sign NaN = NaN"

fun Math_min :: "jsnum \<Rightarrow> jsnum \<Rightarrow> jsnum" where
  "Math_min NaN _ = NaN"
| "Math_min _ NaN = NaN"
| "Math_min a b = (if a < b then a else b)"

definition odd_integer :: "real \<Rightarrow> bool" where
  "odd_integer y = (real_of_int \<lfloor>y\<rfloor> = y \<and> odd \<lfloor>y\<rfloor>)"

fun Math_pow :: "jsnum \<Rightarrow> jsnum \<Rightarrow> jsnum" where
  "Math_pow _ NaN = NaN"
| "Math_pow b (Fin y) =
     (if y = 0 then Fin 1
      else case b of
        NaN \<Rightarrow> NaN
      | PInf \<Rightarrow> (if 0 < y then PInf else Fin 0)
      | NInf \<Rightarrow> (if 0 < y then (if odd_integer y then NInf else PInf) else Fin 0)
      | Fin x \<Rightarrow>
          (if x = 0 then (if 0 < y then Fin 0 else PInf)
           else if 0 < x then Fin (x powr y)
           else if real_of_int \<lfloor>y\<rfloor> = y
             then Fin ((if odd \<lfloor>y\<rfloor> then - 1 else 1) * (\<bar>x\<bar> powr y))
           else NaN))"
| "Math_pow b PInf =
     (case b of
        NaN \<Rightarrow> NaN
      | Fin x \<Rightarrow> (if 1 < \<bar>x\<bar> then PInf else if \<bar>x\<bar> = 1 then NaN else Fin 0)
      | _ \<Rightarrow> PInf)"
| "Math_pow b NInf =
     (case b of
        NaN \<Rightarrow> NaN
      | Fin x \<Rightarrow> (if 1 < \<bar>x\<bar> then Fin 0 else if \<bar>x\<bar> = 1 then NaN else PInf)
      | _ \<Rightarrow> Fin 0)"

section \<open>state.js: the simulation state\<close>

datatype Mode = IDLE | BOYLE | CHARLES | GAY_LUSSAC | MISSION

datatype Gas = HE | NE | AR

datatype Parameter = NoParameter | Pressure | Temperature

text \<open>\<^verbatim>\<open>GAS_PROPERTIES[gasType].molarMass\<close>, in kg/mol.\<close>

fun molarMass :: "Gas \<Rightarrow> jsnum" where
  "molarMass HE = Fin 0.0040026"
| "molarMass NE = Fin 0.0201797"
| "molarMass AR = Fin 0.039948"

record Env =
  altitude :: jsnum
  pressure :: jsnum
  temperature :: jsnum
  gravity :: jsnum

record Balloon =
  gasType :: Gas
  moles :: jsnum
  volume :: jsnum
  radius :: jsnum
  maxRadius :: jsnum
  positionY :: jsnum
  velocity :: jsnum
  massPayload :: jsnum
  massBalloon :: jsnum
  constantVolume :: jsnum

record Animation =
  active :: bool
  startValue :: jsnum
  targetValue :: jsnum
  currentValue :: jsnum
  duration :: jsnum
  elapsed :: jsnum
  parameter :: Parameter
  direction :: int

record SimulationState =
  mode :: Mode
  isRunning :: bool
  env :: Env
  balloon :: Balloon
  animation :: Animation

definition initialState :: SimulationState where
  "initialState =
     \<lparr>mode = IDLE, isRunning = False,
      env = \<lparr>altitude = Fin 0, pressure = Fin 101325, temperature = Fin 293,
             gravity = Fin 9.81\<rparr>,
      balloon = \<lparr>gasType = HE, moles = Fin 0, volume = Fin 0, radius = Fin 1.0,
                 maxRadius = Fin 5.0, positionY = Fin 0, velocity = Fin 0,
                 massPayload = Fin 0.5, massBalloon = Fin 0.2, constantVolume = Fin 0\<rparr>,
      animation = \<lparr>active = False, startValue = Fin 0, targetValue = Fin 0,
                   currentValue = Fin 0, duration = Fin 10, elapsed = Fin 0,
                   parameter = NoParameter, direction = 1\<rparr>\<rparr>"

text \<open>\<^verbatim>\<open>resetMissionState()\<close>.\<close>

definition resetMissionState :: "SimulationState \<Rightarrow> SimulationState" where
  "resetMissionState s =
     s\<lparr>env := (env s)\<lparr>altitude := Fin 0, pressure := Fin 101325, temperature := Fin 293\<rparr>,
       balloon := (balloon s)\<lparr>positionY := Fin 0, velocity := Fin 0, radius := Fin 1.0\<rparr>,
       isRunning := False,
       animation := (animation s)\<lparr>active := False\<rparr>\<rparr>"

section \<open>physics.js\<close>

definition R :: jsnum where
  "R = Fin 8.314"

text \<open>\<^verbatim>\<open>getAtmosphere(altitude)\<close> returns the object \<^verbatim>\<open>{ pressure, temperature }\<close>,
  here the pair in that order.\<close>

definition getAtmosphere :: "jsnum \<Rightarrow> jsnum \<times> jsnum" where
  "getAtmosphere alt =
     (let T0 = Fin 293;
          P0 = Fin 101325;
          L = Fin 0.0065;
          g = Fin 9.81;
          M_air = Fin 0.0289644;
          temperature0 = T0 - (L * alt);
          temperature1 = (if temperature0 < Fin 1 then Fin 1 else temperature0);
          exponent = (g * M_air) / (R * L);
          base = Fin 1 - (L * alt) / T0;
          pressure1 = (if Fin 0 < base then P0 * Math_pow base exponent else Fin 0)
      in (pressure1, temperature1))"

definition calculateVolume :: "jsnum \<Rightarrow> jsnum \<Rightarrow> jsnum \<Rightarrow> jsnum" where
  "calculateVolume n T P = (if P \<le> Fin 0 then PInf else (n * R * T) / P)"

definition calculateMoles :: "jsnum \<Rightarrow> jsnum \<Rightarrow> jsnum \<Rightarrow> jsnum" where
  "calculateMoles P V T = (P * V) / (R * T)"

text \<open>\<^verbatim>\<open>simulationLoop\<close>, section 1 (environment update).\<close>

definition environmentUpdate :: "jsnum \<Rightarrow> SimulationState \<Rightarrow> SimulationState" where
  "environmentUpdate deltaTime s =
     (if mode s = MISSION \<and> isRunning s then
        (let alt = altitude (env s) + velocity (balloon s) * deltaTime;
             envData = getAtmosphere alt
         in s\<lparr>env := (env s)\<lparr>altitude := alt, pressure := fst envData,
                               temperature := snd envData\<rparr>,
              balloon := (balloon s)\<lparr>positionY := alt\<rparr>\<rparr>)
      else s)"

text \<open>\<^verbatim>\<open>simulationLoop\<close>, section 2 (gas laws): nothing is written in Gay-Lussac mode.\<close>

definition gasLaws :: "SimulationState \<Rightarrow> SimulationState" where
  "gasLaws s =
     (if mode s = GAY_LUSSAC then s
      else
        (let vol = calculateVolume (moles (balloon s)) (temperature (env s)) (pressure (env s))
         in s\<lparr>balloon := (balloon s)
                \<lparr>volume := vol,
                 radius := Math_pow ((Fin 3 * vol) / (Fin 4 * Math_PI)) (Fin 1 / Fin 3)\<rparr>\<rparr>))"

text \<open>The local constants of section 3, as functions of the state they are computed from.\<close>

definition rhoAir :: "SimulationState \<Rightarrow> jsnum" where
  "rhoAir s = (pressure (env s) * Fin 0.0289644) / (R * temperature (env s))"

definition liftForce :: "SimulationState \<Rightarrow> jsnum" where
  "liftForce s = rhoAir s * volume (balloon s) * gravity (env s)"

definition totalMass :: "SimulationState \<Rightarrow> jsnum" where
  "totalMass s =
     massPayload (balloon s) + massBalloon (balloon s)
       + moles (balloon s) * molarMass (gasType (balloon s))"

definition gravityForce :: "SimulationState \<Rightarrow> jsnum" where
  "gravityForce s = totalMass s * gravity (env s)"

definition dragForce :: "SimulationState \<Rightarrow> jsnum" where
  "dragForce s =
     (let Cd = Fin 0.47;
          Area = Math_PI * radius (balloon s) * radius (balloon s)
      in - Math_sign (velocity (balloon s)) * Fin 0.5 * rhoAir s
           * (velocity (balloon s) * velocity (balloon s)) * Cd * Area)"

text \<open>\<^verbatim>\<open>simulationLoop\<close>, section 3 (forces and movement, with the floor collision).\<close>

definition forcesAndMovement :: "jsnum \<Rightarrow> SimulationState \<Rightarrow> SimulationState" where
  "forcesAndMovement deltaTime s =
     (if mode s = MISSION \<and> isRunning s then
        (let netForce = liftForce s - gravityForce s;
             totalForce = netForce + dragForce s;
             acceleration = totalForce / totalMass s;
             s1 = s\<lparr>balloon := (balloon s)
                     \<lparr>velocity := velocity (balloon s) + acceleration * deltaTime\<rparr>\<rparr>
         in if altitude (env s1) < Fin 0
            then s1\<lparr>env := (env s1)\<lparr>altitude := Fin 0\<rparr>,
                    balloon := (balloon s1)\<lparr>positionY := Fin 0, velocity := Fin 0\<rparr>\<rparr>
            else s1)
      else s)"

text \<open>\<^verbatim>\<open>simulationLoop(deltaTime)\<close>: the three sections in order, then section 4, which
  only compares; the result is the new state and the field \<^verbatim>\<open>exploded\<close>.\<close>

definition simulationLoop :: "jsnum \<Rightarrow> SimulationState \<Rightarrow> SimulationState \<times> bool" where
  "simulationLoop deltaTime s =
     (let s1 = environmentUpdate deltaTime s;
          s2 = gasLaws s1;
          s3 = forcesAndMovement deltaTime s2
      in (s3, maxRadius (balloon s3) \<le> radius (balloon s3)))"

section \<open>main.js: filling, the sliders, the ramp and the frame\<close>

text \<open>\<^verbatim>\<open>recalculateMoles()\<close>. The three slider readings (\<^verbatim>\<open>sliderInitialRadius\<close>,
  \<^verbatim>\<open>sliderPressure\<close>, \<^verbatim>\<open>sliderTemp\<close>, each through \<^verbatim>\<open>parseFloat\<close>) are the
  arguments, in the order the function reads them.\<close>

definition recalculateMoles ::
  "jsnum \<Rightarrow> jsnum \<Rightarrow> jsnum \<Rightarrow> SimulationState \<Rightarrow> SimulationState" where
  "recalculateMoles initialRadius P T s =
     (let initialVolume = (Fin 4 / Fin 3) * Math_PI * Math_pow initialRadius (Fin 3)
      in s\<lparr>balloon := (balloon s)
             \<lparr>moles := calculateMoles P initialVolume T,
              volume := initialVolume,
              radius := initialRadius\<rparr>\<rparr>)"

text \<open>\<^verbatim>\<open>updateControlVisibility()\<close> shows and hides controls; its one write to the
  state is the volume snapshot taken in Gay-Lussac mode.\<close>

definition updateControlVisibility :: "SimulationState \<Rightarrow> SimulationState" where
  "updateControlVisibility s =
     (if mode s = GAY_LUSSAC
      then s\<lparr>balloon := (balloon s)\<lparr>constantVolume := volume (balloon s)\<rparr>\<rparr>
      else s)"

text \<open>The \<^verbatim>\<open>click\<close> listener of a mode button (\<^verbatim>\<open>btn.dataset.mode\<close> is \<open>newMode\<close>).
  Entering the mission calls \<^verbatim>\<open>initSimulation()\<close>, that is \<^verbatim>\<open>recalculateMoles()\<close>,
  which reads the three sliders.\<close>

definition modeBtnClick ::
  "Mode \<Rightarrow> jsnum \<Rightarrow> jsnum \<Rightarrow> jsnum \<Rightarrow> SimulationState \<Rightarrow> SimulationState" where
  "modeBtnClick newMode initialRadius P T s =
     (let s1 = s\<lparr>mode := newMode, isRunning := False,
                 animation := (animation s)\<lparr>active := False\<rparr>\<rparr>;
          s2 = (if newMode = MISSION
                then recalculateMoles initialRadius P T (resetMissionState s1)
                else s1\<lparr>env := (env s1)\<lparr>altitude := Fin 0\<rparr>,
                        balloon := (balloon s1)\<lparr>velocity := Fin 0, positionY := Fin 0\<rparr>\<rparr>)
      in updateControlVisibility s2)"

text \<open>The \<^verbatim>\<open>input\<close> listeners of the pressure and temperature sliders.\<close>

definition sliderPressureInput :: "jsnum \<Rightarrow> SimulationState \<Rightarrow> SimulationState" where
  "sliderPressureInput v s =
     (if mode s = IDLE \<or> mode s = BOYLE then s\<lparr>env := (env s)\<lparr>pressure := v\<rparr>\<rparr> else s)"

definition sliderTempInput :: "jsnum \<Rightarrow> SimulationState \<Rightarrow> SimulationState" where
  "sliderTempInput v s =
     (if mode s = IDLE \<or> mode s = CHARLES \<or> mode s = GAY_LUSSAC
      then s\<lparr>env := (env s)\<lparr>temperature := v\<rparr>\<rparr> else s)"

text \<open>The \<^verbatim>\<open>click\<close> listener of \<^verbatim>\<open>btnStartEdu\<close>; \<^verbatim>\<open>selectedDirection\<close> is the
  module variable set by the two direction buttons (1 or -1).\<close>

definition startRamp ::
  "Parameter \<Rightarrow> jsnum \<Rightarrow> jsnum \<Rightarrow> int \<Rightarrow> SimulationState \<Rightarrow> SimulationState" where
  "startRamp p start target selectedDirection s =
     s\<lparr>animation := (animation s)
         \<lparr>parameter := p, startValue := start, direction := selectedDirection,
          targetValue := target, currentValue := start, elapsed := Fin 0,
          active := True\<rparr>\<rparr>"

definition btnStartEduClick :: "int \<Rightarrow> SimulationState \<Rightarrow> SimulationState" where
  "btnStartEduClick selectedDirection s =
     (let PRESSURE_MIN = Fin 10000;
          PRESSURE_MAX = Fin 200000;
          TEMP_MIN = Fin 100;
          TEMP_MAX = Fin 500
      in if mode s = BOYLE then
           startRamp Pressure (pressure (env s))
             (if selectedDirection = 1 then PRESSURE_MAX else PRESSURE_MIN) selectedDirection s
         else if mode s = CHARLES then
           startRamp Temperature (temperature (env s))
             (if selectedDirection = 1 then TEMP_MAX else TEMP_MIN) selectedDirection s
         else if mode s = GAY_LUSSAC then
           startRamp Temperature (temperature (env s))
             (if selectedDirection = 1 then TEMP_MAX else TEMP_MIN) selectedDirection s
         else s)"

definition btnStopEduClick :: "SimulationState \<Rightarrow> SimulationState" where
  "btnStopEduClick s = s\<lparr>animation := (animation s)\<lparr>active := False, elapsed := Fin 0\<rparr>\<rparr>"

text \<open>\<^verbatim>\<open>animate\<close> writes a value to the ramped parameter twice, the interpolated value
  and then the target at the snap, with the same statements: the assignment, and in
  Gay-Lussac mode the pressure recomputed from the new temperature.\<close>

definition writeParameter :: "jsnum \<Rightarrow> SimulationState \<Rightarrow> SimulationState" where
  "writeParameter v s =
     (if parameter (animation s) = Pressure then s\<lparr>env := (env s)\<lparr>pressure := v\<rparr>\<rparr>
      else if parameter (animation s) = Temperature then
        (let s1 = s\<lparr>env := (env s)\<lparr>temperature := v\<rparr>\<rparr>
         in if mode s1 = GAY_LUSSAC
            then s1\<lparr>env := (env s1)
                    \<lparr>pressure := (moles (balloon s1) * Fin 8.314 * temperature (env s1))
                                   / constantVolume (balloon s1)\<rparr>\<rparr>
            else s1)
      else s)"

text \<open>The block of \<^verbatim>\<open>animate\<close> guarded by \<^verbatim>\<open>s.animation.active\<close>.\<close>

definition animationUpdate :: "jsnum \<Rightarrow> SimulationState \<Rightarrow> SimulationState" where
  "animationUpdate deltaTime s =
     (if active (animation s) then
        (let s1 = s\<lparr>animation := (animation s)\<lparr>elapsed := elapsed (animation s) + deltaTime\<rparr>\<rparr>;
             progress = Math_min (elapsed (animation s1) / duration (animation s1)) (Fin 1.0);
             v = startValue (animation s1)
                   + (targetValue (animation s1) - startValue (animation s1)) * progress;
             s2 = writeParameter v s1
         in if Fin 1.0 \<le> progress
            then (let s3 = writeParameter (targetValue (animation s2)) s2
                  in s3\<lparr>animation := (animation s3)\<lparr>active := False\<rparr>\<rparr>)
            else s2)
      else s)"

text \<open>The first statement of \<^verbatim>\<open>animate\<close>: the frame's time step, capped.\<close>

definition frameDeltaTime :: "jsnum \<Rightarrow> jsnum \<Rightarrow> jsnum" where
  "frameDeltaTime currentTime lastTime =
     Math_min ((currentTime - lastTime) / Fin 1000) (Fin 0.1)"

text \<open>\<^verbatim>\<open>animate(currentTime)\<close>, with the module variable \<^verbatim>\<open>lastTime\<close> beside the
  state. The result carries the new \<^verbatim>\<open>lastTime\<close>, the state at the end of the frame
  and \<^verbatim>\<open>result.exploded\<close>. The scene, the display and the reset that a burst schedules
  three seconds later through \<^verbatim>\<open>setTimeout\<close> are outside the frame.\<close>

definition animate ::
  "jsnum \<Rightarrow> jsnum \<times> SimulationState \<Rightarrow> jsnum \<times> SimulationState \<times> bool" where
  "animate currentTime w =
     (let lastTime = fst w;
          deltaTime = frameDeltaTime currentTime lastTime;
          s1 = animationUpdate deltaTime (snd w);
          result = simulationLoop deltaTime s1;
          s2 = fst result;
          exploded = snd result;
          s3 = (if exploded
                then s2\<lparr>isRunning := False, animation := (animation s2)\<lparr>active := False\<rparr>\<rparr>
                else s2)
      in (currentTime, s3, exploded))"

text \<open>What can happen to the simulation between two frames in an educational mode: a
  frame, a slider moved, the ramp started or stopped. \<open>runEvents\<close> applies a sequence
  of them and \<open>explosions\<close> lists the \<^verbatim>\<open>exploded\<close> results of its frames.\<close>

datatype Event =
  Frame jsnum | SliderPressure jsnum | SliderTemp jsnum | StartEdu int | StopEdu

fun dispatch :: "Event \<Rightarrow> jsnum \<times> SimulationState \<Rightarrow> jsnum \<times> SimulationState" where
  "dispatch (Frame currentTime) w =
     (fst (animate currentTime w), fst (snd (animate currentTime w)))"
| "dispatch (SliderPressure v) w = (fst w, sliderPressureInput v (snd w))"
| "dispatch (SliderTemp v) w = (fst w, sliderTempInput v (snd w))"
| "dispatch (StartEdu selectedDirection) w = (fst w, btnStartEduClick selectedDirection (snd w))"
| "dispatch StopEdu w = (fst w, btnStopEduClick (snd w))"

fun runEvents :: "Event list \<Rightarrow> jsnum \<times> SimulationState \<Rightarrow> jsnum \<times> SimulationState" where
  "runEvents [] w = w"
| "runEvents (e # es) w = runEvents es (dispatch e w)"

fun explosions :: "Event list \<Rightarrow> jsnum \<times> SimulationState \<Rightarrow> bool list" where
  "explosions [] w = []"
| "explosions (Frame currentTime # es) w =
     snd (snd (animate currentTime w)) # explosions es (dispatch (Frame currentTime) w)"
| "explosions (e # es) w = explosions es (dispatch e w)"

section \<open>Example states\<close>

text \<open>The state after the application has started with the sliders at 101325 Pa,
  293 K and an initial radius of 1 m (\<^verbatim>\<open>initSimulation()\<close>).\<close>

definition filledState :: SimulationState where
  "filledState = recalculateMoles (Fin 1.0) (Fin 101325) (Fin 293) initialState"

text \<open>The Gay-Lussac button clicked in that state.\<close>

definition gayLussacStart :: SimulationState where
  "gayLussacStart = modeBtnClick GAY_LUSSAC (Fin 1.0) (Fin 101325) (Fin 293) filledState"

text \<open>Free mode, the balloon filled at a radius of 2 m, then the pressure slider moved to
  10000 Pa and the temperature slider to 500 K.\<close>

definition burstState :: SimulationState where
  "burstState =
     sliderTempInput (Fin 500) (sliderPressureInput (Fin 10000)
       (recalculateMoles (Fin 2.0) (Fin 101325) (Fin 293) initialState))"

text \<open>A balloon holding 174 mol of helium at sea level, in a given mode, running or not,
  with a given vertical velocity.\<close>

definition sampleState :: "Mode \<Rightarrow> bool \<Rightarrow> jsnum \<Rightarrow> SimulationState" where
  "sampleState m run v =
     initialState\<lparr>mode := m, isRunning := run,
       balloon := (balloon initialState)\<lparr>moles := Fin 174, volume := Fin 4.18, velocity := v\<rparr>\<rparr>"

text \<open>A running mission at ground level, climbing at 1 m/s.\<close>

definition flightState :: SimulationState where
  "flightState = sampleState MISSION True (Fin 1)"

section \<open>Bounds on pi\<close>

text \<open>The partial sums of the arctangent series alternate around its value.\<close>

lemma arctan_partial_sums:
  fixes x :: real
  assumes "0 < x" "x \<le> 1"
  shows "(\<Sum>i<2 * n. (- 1) ^ i * (1 / real (i * 2 + 1) * x ^ (i * 2 + 1))) \<le> arctan x"
    and "arctan x \<le> (\<Sum>i<2 * n + 1. (- 1) ^ i * (1 / real (i * 2 + 1) * x ^ (i * 2 + 1)))"
proof -
  have ax: "\<bar>x\<bar> \<le> 1" using assms by simp
  have pos: "0 < 1 / real (0 * 2 + 1) * x ^ (0 * 2 + 1)" using assms by simp
  have "(\<Sum>k. (- 1) ^ k * (1 / real (k * 2 + 1) * x ^ (k * 2 + 1)))
          \<in> {\<Sum>i<2 * n. (- 1) ^ i * (1 / real (i * 2 + 1) * x ^ (i * 2 + 1)) ..
              \<Sum>i<2 * n + 1. (- 1) ^ i * (1 / real (i * 2 + 1) * x ^ (i * 2 + 1))}"
    using summable_Leibniz(2)[OF zeroseq_arctan_series[OF ax] monoseq_arctan_series[OF ax]] pos
    by blast
  then show "(\<Sum>i<2 * n. (- 1) ^ i * (1 / real (i * 2 + 1) * x ^ (i * 2 + 1))) \<le> arctan x"
    and "arctan x \<le> (\<Sum>i<2 * n + 1. (- 1) ^ i * (1 / real (i * 2 + 1) * x ^ (i * 2 + 1)))"
    unfolding arctan_series[OF ax] by simp_all
qed

lemma arctan_fifth_lower: "(323852 / 1640625 :: real) \<le> arctan (1 / 5)"
proof -
  have "(\<Sum>i<2 * 2. (- 1) ^ i * (1 / real (i * 2 + 1) * (1 / 5) ^ (i * 2 + 1)))
          \<le> arctan (1 / 5 :: real)"
    by (rule arctan_partial_sums(1)) simp_all
  moreover have "(\<Sum>i<2 * 2. (- 1) ^ i * (1 / real (i * 2 + 1) * (1 / 5 :: real) ^ (i * 2 + 1)))
      = 323852 / 1640625"
    by (simp add: numeral_eq_Suc)
  ultimately show ?thesis by linarith
qed

lemma arctan_fifth_upper: "arctan (1 / 5) \<le> (9253 / 46875 :: real)"
proof -
  have "arctan (1 / 5 :: real)
          \<le> (\<Sum>i<2 * 1 + 1. (- 1) ^ i * (1 / real (i * 2 + 1) * (1 / 5) ^ (i * 2 + 1)))"
    by (rule arctan_partial_sums(2)) simp_all
  moreover have "(\<Sum>i<2 * 1 + 1. (- 1) ^ i * (1 / real (i * 2 + 1) * (1 / 5 :: real) ^ (i * 2 + 1)))
      = 9253 / 46875"
    by (simp add: numeral_eq_Suc)
  ultimately show ?thesis by linarith
qed

lemma arctan_239_upper: "arctan (1 / 239) \<le> (1 / 239 :: real)"
  using arctan_partial_sums(2)[of "1 / 239" 0] by simp

lemma arctan_239_lower: "(171362 / 40955757 :: real) \<le> arctan (1 / 239)"
proof -
  have "(\<Sum>i<2 * 1. (- 1) ^ i * (1 / real (i * 2 + 1) * (1 / 239) ^ (i * 2 + 1)))
          \<le> arctan (1 / 239 :: real)"
    by (rule arctan_partial_sums(1)) simp_all
  moreover have "(\<Sum>i<2 * 1. (- 1) ^ i * (1 / real (i * 2 + 1) * (1 / 239 :: real) ^ (i * 2 + 1)))
      = 171362 / 40955757"
    by (simp add: numeral_eq_Suc)
  ultimately show ?thesis by linarith
qed

lemma pi_bounds: "3.1415 < pi" "pi < 3.1417"
proof -
  have eq: "pi = 16 * arctan (1 / 5) - 4 * arctan (1 / 239)"
    using machin by simp
  show "3.1415 < pi"
    using arctan_fifth_lower arctan_239_upper unfolding eq by simp
  show "pi < 3.1417"
    using arctan_fifth_upper arctan_239_lower unfolding eq by simp
qed

lemma cube_root_cube: "0 < r \<Longrightarrow> (r ^ 3) powr (1 / 3) = (r::real)"
proof -
  assume r: "0 < r"
  have "(r ^ 3) powr (1 / 3) = (r powr 3) powr (1 / 3)"
    using r by simp
  also have "\<dots> = r powr 1"
    by (simp add: powr_powr)
  finally show ?thesis using r by simp
qed

section \<open>The step, section by section\<close>

lemmas step_defs = simulationLoop_def environmentUpdate_def gasLaws_def forcesAndMovement_def
  calculateVolume_def R_def Math_PI_def Let_def

lemma gasLaws_frame:
  "mode (gasLaws s) = mode s" "isRunning (gasLaws s) = isRunning s" "env (gasLaws s) = env s"
  "animation (gasLaws s) = animation s"
  "moles (balloon (gasLaws s)) = moles (balloon s)"
  "maxRadius (balloon (gasLaws s)) = maxRadius (balloon s)"
  by (simp_all add: gasLaws_def Let_def)

lemma gasLaws_again:
  "balloon (gasLaws ((gasLaws s)\<lparr>isRunning := r, animation := a\<rparr>)) = balloon (gasLaws s)"
  by (simp add: gasLaws_def Let_def)

lemma gasLaws_finite:
  assumes "mode s \<noteq> GAY_LUSSAC"
    and "moles (balloon s) = Fin n" "temperature (env s) = Fin T" "pressure (env s) = Fin P"
    and "0 < P"
  shows "volume (balloon (gasLaws s)) = Fin (n * 8.314 * T / P)"
    and "radius (balloon (gasLaws s)) = Math_pow (Fin (3 * (n * 8.314 * T / P) / (4 * pi))) (Fin (1 / 3))"
  using assms by (simp_all add: gasLaws_def calculateVolume_def R_def Math_PI_def Let_def)

lemma environmentUpdate_still:
  "\<not> (mode s = MISSION \<and> isRunning s) \<Longrightarrow> environmentUpdate dt s = s"
  unfolding environmentUpdate_def by (rule if_not_P)

lemma forcesAndMovement_still:
  "\<not> (mode s = MISSION \<and> isRunning s) \<Longrightarrow> forcesAndMovement dt s = s"
  unfolding forcesAndMovement_def by (rule if_not_P)

lemma simulationLoop_still:
  assumes "\<not> (mode s = MISSION \<and> isRunning s)"
  shows "simulationLoop dt s =
     (gasLaws s, maxRadius (balloon (gasLaws s)) \<le> radius (balloon (gasLaws s)))"
proof -
  have "\<not> (mode (gasLaws s) = MISSION \<and> isRunning (gasLaws s))"
    using assms by (simp add: gasLaws_frame)
  then have "forcesAndMovement dt (gasLaws s) = gasLaws s"
    by (rule forcesAndMovement_still)
  then show ?thesis
    unfolding simulationLoop_def Let_def environmentUpdate_still[OF assms] by simp
qed

lemma gay_lussac_step:
  "mode s = GAY_LUSSAC \<Longrightarrow> simulationLoop dt s = (s, maxRadius (balloon s) \<le> radius (balloon s))"
  by (simp add: simulationLoop_still) (simp add: gasLaws_def)

lemma writeParameter_frame:
  "mode (writeParameter v s) = mode s" "balloon (writeParameter v s) = balloon s"
  "animation (writeParameter v s) = animation s" "isRunning (writeParameter v s) = isRunning s"
  by (simp_all add: writeParameter_def Let_def)

lemma animationUpdate_frame:
  "mode (animationUpdate dt s) = mode s" "balloon (animationUpdate dt s) = balloon s"
  "isRunning (animationUpdate dt s) = isRunning s"
  by (simp_all add: animationUpdate_def Let_def writeParameter_frame)

lemma animationUpdate_inactive: "\<not> active (animation s) \<Longrightarrow> animationUpdate dt s = s"
  by (simp add: animationUpdate_def)

lemma animate_still:
  assumes "\<not> active (animation s)" "\<not> (mode s = MISSION \<and> isRunning s)"
  shows "animate t (lt, s) =
     (t,
      (if maxRadius (balloon (gasLaws s)) \<le> radius (balloon (gasLaws s))
       then (gasLaws s)\<lparr>isRunning := False, animation := (animation s)\<lparr>active := False\<rparr>\<rparr>
       else gasLaws s),
      maxRadius (balloon (gasLaws s)) \<le> radius (balloon (gasLaws s)))"
  using assms
  by (simp add: animate_def Let_def animationUpdate_inactive simulationLoop_still gasLaws_frame)

lemma animate_gay_lussac:
  assumes "mode s = GAY_LUSSAC"
  shows "mode (fst (snd (animate t (lt, s)))) = GAY_LUSSAC"
    and "balloon (fst (snd (animate t (lt, s)))) = balloon s"
    and "snd (snd (animate t (lt, s))) = (maxRadius (balloon s) \<le> radius (balloon s))"
  using assms
  by (simp_all add: animate_def Let_def gay_lussac_step animationUpdate_frame)

lemma dispatch_gay_lussac:
  assumes "mode (snd w) = GAY_LUSSAC"
  shows "mode (snd (dispatch e w)) = GAY_LUSSAC \<and> balloon (snd (dispatch e w)) = balloon (snd w)"
  using assms
  by (cases e; cases w)
     (simp_all add: animate_gay_lussac sliderPressureInput_def sliderTempInput_def
        btnStartEduClick_def startRamp_def btnStopEduClick_def Let_def)

lemma runEvents_gay_lussac:
  "mode (snd w) = GAY_LUSSAC \<Longrightarrow>
     mode (snd (runEvents es w)) = GAY_LUSSAC \<and> balloon (snd (runEvents es w)) = balloon (snd w)"
proof (induction es arbitrary: w)
  case Nil
  then show ?case by simp
next
  case (Cons e es)
  then show ?case using dispatch_gay_lussac[OF Cons.prems] by simp
qed

lemma explosions_gay_lussac:
  "mode (snd w) = GAY_LUSSAC \<Longrightarrow>
     \<forall>x \<in> set (explosions es w). x = (maxRadius (balloon (snd w)) \<le> radius (balloon (snd w)))"
proof (induction es arbitrary: w)
  case Nil
  then show ?case by simp
next
  case (Cons e es)
  have d: "mode (snd (dispatch e w)) = GAY_LUSSAC" "balloon (snd (dispatch e w)) = balloon (snd w)"
    using dispatch_gay_lussac[OF Cons.prems] by simp_all
  have rest: "\<forall>x \<in> set (explosions es (dispatch e w)).
          x = (maxRadius (balloon (snd w)) \<le> radius (balloon (snd w)))"
    using Cons.IH[OF d(1)] d(2) by simp
  show ?case
  proof (cases e)
    case (Frame t)
    obtain lt s where w: "w = (lt, s)" by (cases w)
    have "snd (snd (animate t w)) = (maxRadius (balloon (snd w)) \<le> radius (balloon (snd w)))"
      using Cons.prems animate_gay_lussac(3) unfolding w by simp
    then show ?thesis using rest Frame by simp
  qed (use rest in simp_all)
qed

lemma gay_lussac_ramp_pressure:
  assumes "mode s = GAY_LUSSAC" "active (animation s)" "parameter (animation s) = Temperature"
  shows "pressure (env (animationUpdate dt s))
           = (moles (balloon s) * Fin 8.314 * temperature (env (animationUpdate dt s)))
               / constantVolume (balloon s)"
  using assms by (simp add: animationUpdate_def writeParameter_def Let_def)

lemma environmentUpdate_frame:
  "mode (environmentUpdate dt s) = mode s" "isRunning (environmentUpdate dt s) = isRunning s"
  "moles (balloon (environmentUpdate dt s)) = moles (balloon s)"
  "maxRadius (balloon (environmentUpdate dt s)) = maxRadius (balloon s)"
  by (simp_all add: environmentUpdate_def Let_def)

lemma forcesAndMovement_frame:
  "mode (forcesAndMovement dt s) = mode s" "isRunning (forcesAndMovement dt s) = isRunning s"
  "moles (balloon (forcesAndMovement dt s)) = moles (balloon s)"
  "maxRadius (balloon (forcesAndMovement dt s)) = maxRadius (balloon s)"
  "radius (balloon (forcesAndMovement dt s)) = radius (balloon s)"
  "volume (balloon (forcesAndMovement dt s)) = volume (balloon s)"
  by (simp_all add: forcesAndMovement_def Let_def)

lemma gasLaws_idem: "gasLaws (gasLaws s) = gasLaws s"
  by (simp add: gasLaws_def Let_def)

lemma simulationLoop_frame:
  "mode (fst (simulationLoop dt s)) = mode s"
  "isRunning (fst (simulationLoop dt s)) = isRunning s"
  "moles (balloon (fst (simulationLoop dt s))) = moles (balloon s)"
  "maxRadius (balloon (fst (simulationLoop dt s))) = maxRadius (balloon s)"
  by (simp_all add: simulationLoop_def Let_def forcesAndMovement_frame gasLaws_frame
        environmentUpdate_frame)

lemma burstState_fields:
  "mode burstState = IDLE" "isRunning burstState = False" "active (animation burstState) = False"
  "pressure (env burstState) = Fin 10000" "temperature (env burstState) = Fin 500"
  "maxRadius (balloon burstState) = Fin 5"
  "moles (balloon burstState) = Fin (101325 * (4 / 3 * pi * 8) / (8.314 * 293))"
  by (simp_all add: burstState_def sliderTempInput_def sliderPressureInput_def
        recalculateMoles_def calculateMoles_def initialState_def R_def Math_PI_def Let_def)

lemma burstState_bursts:
  "maxRadius (balloon (gasLaws burstState)) \<le> radius (balloon (gasLaws burstState))"
proof -
  have r: "radius (balloon (gasLaws burstState))
        = Math_pow (Fin (3 * (101325 * (4 / 3 * pi * 8) / (8.314 * 293) * 8.314 * 500 / 10000) / (4 * pi)))
            (Fin (1 / 3))"
    by (rule gasLaws_finite(2)) (simp_all add: burstState_fields)
  have x: "3 * (101325 * (4 / 3 * pi * 8) / (8.314 * 293) * 8.314 * 500 / 10000) / (4 * pi)
         = (40530 / 293 :: real)"
    by simp
  have "(5 ^ 3) powr (1 / 3) \<le> (40530 / 293 :: real) powr (1 / 3)"
    by (rule powr_mono2) simp_all
  moreover have "(5 ^ 3) powr (1 / 3) = (5 :: real)"
    by (rule cube_root_cube) simp
  ultimately have "5 \<le> (40530 / 293 :: real) powr (1 / 3)"
    by (simp only:)
  then show ?thesis
    by (simp add: r x gasLaws_frame burstState_fields)
qed

lemma filledState_fields:
  "mode filledState = IDLE" "isRunning filledState = False"
  "active (animation filledState) = False"
  "pressure (env filledState) = Fin 101325" "temperature (env filledState) = Fin 293"
  "maxRadius (balloon filledState) = Fin 5" "radius (balloon filledState) = Fin 1"
  "volume (balloon filledState) = Fin (4 / 3 * pi)"
  "moles (balloon filledState) = Fin (101325 * (4 / 3 * pi) / (8.314 * 293))"
  by (simp_all add: filledState_def recalculateMoles_def calculateMoles_def initialState_def
        R_def Math_PI_def Let_def)

lemma gayLussacStart_fields:
  "mode gayLussacStart = GAY_LUSSAC" "isRunning gayLussacStart = False"
  "active (animation gayLussacStart) = False"
  "pressure (env gayLussacStart) = Fin 101325" "temperature (env gayLussacStart) = Fin 293"
  "maxRadius (balloon gayLussacStart) = Fin 5" "radius (balloon gayLussacStart) = Fin 1"
  "volume (balloon gayLussacStart) = Fin (4 / 3 * pi)"
  "constantVolume (balloon gayLussacStart) = Fin (4 / 3 * pi)"
  "moles (balloon gayLussacStart) = Fin (101325 * (4 / 3 * pi) / (8.314 * 293))"
  by (simp_all add: gayLussacStart_def modeBtnClick_def updateControlVisibility_def Let_def
        filledState_fields)

lemma animate_gay_lussac_inactive:
  assumes "mode s = GAY_LUSSAC" "\<not> active (animation s)"
    and "\<not> maxRadius (balloon s) \<le> radius (balloon s)"
  shows "animate t (lt, s) = (t, s, False)"
  using assms by (simp add: animate_def Let_def animationUpdate_inactive gay_lussac_step)

lemma sampleState_fields:
  "mode (sampleState m run v) = m" "isRunning (sampleState m run v) = run"
  "altitude (env (sampleState m run v)) = Fin 0"
  "pressure (env (sampleState m run v)) = Fin 101325"
  "temperature (env (sampleState m run v)) = Fin 293"
  "gravity (env (sampleState m run v)) = Fin 9.81"
  "moles (balloon (sampleState m run v)) = Fin 174"
  "velocity (balloon (sampleState m run v)) = v"
  "massPayload (balloon (sampleState m run v)) = Fin 0.5"
  "massBalloon (balloon (sampleState m run v)) = Fin 0.2"
  "gasType (balloon (sampleState m run v)) = HE"
  by (simp_all add: sampleState_def initialState_def)

lemma launch_forces:
  assumes "mode s = MISSION" "isRunning s"
    and "altitude (env s) = Fin 0" "velocity (balloon s) = Fin 0"
    and "moles (balloon s) = Fin n"
    and "massPayload (balloon s) = Fin mp" "massBalloon (balloon s) = Fin mb"
    and "gravity (env s) = Fin g"
    and "molarMass (gasType (balloon s)) = Fin mg"
  shows "liftForce (gasLaws (environmentUpdate (Fin d) s)) = Fin (n * 0.0289644 * g)"
    and "gravityForce (gasLaws (environmentUpdate (Fin d) s)) = Fin ((mp + mb + n * mg) * g)"
  using assms
  by (simp_all add: step_defs getAtmosphere_def liftForce_def gravityForce_def totalMass_def
        rhoAir_def minus_jsnum_def)

lemma mission_altitude:
  assumes "mode s = MISSION" "isRunning s" "altitude (env s) = Fin a" "velocity (balloon s) = Fin v"
  shows "altitude (env (fst (simulationLoop (Fin d) s))) = Fin (if a + v * d < 0 then 0 else a + v * d)"
  using assms by (simp add: step_defs)

section \<open>The properties\<close>

subsection \<open>C1: filling, then one step in free mode\<close>

text \<open>
  C1. For all positive finite P, T and r: \<^verbatim>\<open>recalculateMoles\<close> with the sliders at r, P
  and T sets moles = P V / (R T) with V = (4/3) pi r^3, volume = V and radius = r; one
  \<^verbatim>\<open>simulationLoop\<close> in free mode (\<^verbatim>\<open>IDLE\<close>) at the same pressure and temperature
  then recomputes the volume and the radius and gets V and r again, for every time step.
\<close>

theorem fill_then_free_step:
  assumes "0 < P" "0 < T" "0 < r"
    and "mode s = IDLE" "pressure (env s) = Fin P" "temperature (env s) = Fin T"
  shows "moles (balloon (recalculateMoles (Fin r) (Fin P) (Fin T) s))
           = Fin (P * (4 / 3 * pi * r ^ 3) / (8.314 * T))
       \<and> volume (balloon (recalculateMoles (Fin r) (Fin P) (Fin T) s)) = Fin (4 / 3 * pi * r ^ 3)
       \<and> radius (balloon (recalculateMoles (Fin r) (Fin P) (Fin T) s)) = Fin r
       \<and> volume (balloon (fst (simulationLoop dt (recalculateMoles (Fin r) (Fin P) (Fin T) s))))
           = Fin (4 / 3 * pi * r ^ 3)
       \<and> radius (balloon (fst (simulationLoop dt (recalculateMoles (Fin r) (Fin P) (Fin T) s))))
           = Fin r"
  using assms
  by (simp add: step_defs recalculateMoles_def calculateMoles_def cube_root_cube)

theorem fill_then_free_step_witness:
  "(0::real) < 101325 \<and> (0::real) < 293 \<and> (0::real) < 2
   \<and> mode initialState = IDLE \<and> pressure (env initialState) = Fin 101325
   \<and> temperature (env initialState) = Fin 293
   \<and> volume (balloon (fst (simulationLoop (Fin 0.016)
          (recalculateMoles (Fin 2) (Fin 101325) (Fin 293) initialState)))) = Fin (4 / 3 * pi * 2 ^ 3)
   \<and> radius (balloon (fst (simulationLoop (Fin 0.016)
          (recalculateMoles (Fin 2) (Fin 101325) (Fin 293) initialState)))) = Fin 2"
proof -
  have h: "mode initialState = IDLE" "pressure (env initialState) = Fin 101325"
    "temperature (env initialState) = Fin 293"
    by (simp_all add: initialState_def)
  have p: "(0::real) < 101325" "(0::real) < 293" "(0::real) < 2"
    by simp_all
  show ?thesis
    using fill_then_free_step[OF p h, of "Fin 0.016"] h by simp
qed

subsection \<open>C2: the atmosphere\<close>

text \<open>
  C2. For every real altitude h, \<^verbatim>\<open>getAtmosphere\<close> returns the temperature
  293 - 0.0065 h, but never less than 1, and the pressure
  101325 (1 - 0.0065 h / 293) ^ ((9.81 * 0.0289644) / (8.314 * 0.0065)) when
  1 - 0.0065 h / 293 is positive, and 0 otherwise.
\<close>

theorem getAtmosphere_formula:
  "getAtmosphere (Fin h) =
     (Fin (if 0 < 1 - 0.0065 * h / 293
           then 101325 * (1 - 0.0065 * h / 293) powr ((9.81 * 0.0289644) / (8.314 * 0.0065))
           else 0),
      Fin (max 1 (293 - 0.0065 * h)))"
  by (simp add: getAtmosphere_def R_def Let_def minus_jsnum_def max_def)

theorem getAtmosphere_formula_witness:
  "getAtmosphere (Fin 0) = (Fin 101325, Fin 293) \<and> getAtmosphere (Fin 50000) = (Fin 0, Fin 1)"
  using getAtmosphere_formula[of 0] getAtmosphere_formula[of 50000] by simp

subsection \<open>C3: Gay-Lussac mode and the ratio of pressure to temperature\<close>

text \<open>
  In Gay-Lussac mode the step writes nothing (\<open>gay_lussac_step\<close>), and a frame of the
  temperature ramp leaves the pressure at moles R T / constantVolume
  (\<open>gay_lussac_ramp_pressure\<close>). The temperature slider is also accepted in this
  mode, and its listener writes the temperature only.
\<close>

text \<open>
  C3. The application is started, the Gay-Lussac button is clicked, the temperature slider
  is moved from 293 K to 400 K and one frame runs. The pressure is still 101325 Pa, so
  the ratio of pressure to temperature has changed from 101325 / 293 to 101325 / 400;
  the formula the ramp uses gives 101325 * 400 / 293 Pa at 400 K.
\<close>

theorem gay_lussac_slider_leaves_pressure:
  "pressure (env gayLussacStart) / temperature (env gayLussacStart) = Fin (101325 / 293)
   \<and> temperature (env (snd (runEvents [SliderTemp (Fin 400), Frame (Fin 16)] (Fin 0, gayLussacStart))))
       = Fin 400
   \<and> pressure (env (snd (runEvents [SliderTemp (Fin 400), Frame (Fin 16)] (Fin 0, gayLussacStart))))
       = Fin 101325
   \<and> pressure (env (snd (runEvents [SliderTemp (Fin 400), Frame (Fin 16)] (Fin 0, gayLussacStart))))
       / temperature (env (snd (runEvents [SliderTemp (Fin 400), Frame (Fin 16)] (Fin 0, gayLussacStart))))
       = Fin (101325 / 400)
   \<and> (moles (balloon gayLussacStart) * Fin 8.314 * Fin 400) / constantVolume (balloon gayLussacStart)
       = Fin (101325 * 400 / 293)"
proof -
  let ?s1 = "gayLussacStart\<lparr>env := (env gayLussacStart)\<lparr>temperature := Fin 400\<rparr>\<rparr>"
  have s1: "sliderTempInput (Fin 400) gayLussacStart = ?s1"
    by (simp add: sliderTempInput_def gayLussacStart_fields)
  have "animate (Fin 16) (Fin 0, ?s1) = (Fin 16, ?s1, False)"
    by (rule animate_gay_lussac_inactive) (simp_all add: gayLussacStart_fields)
  then have run: "snd (runEvents [SliderTemp (Fin 400), Frame (Fin 16)] (Fin 0, gayLussacStart)) = ?s1"
    by (simp add: s1)
  show ?thesis
    unfolding run by (simp add: gayLussacStart_fields)
qed

subsection \<open>C4: Boyle mode\<close>

text \<open>
  C4. Take two states in Boyle mode with the same finite temperature and the same finite
  amount of gas, each at a positive finite pressure. After a step from each, pressure
  times volume is the same in both, and equals moles R T.
\<close>

theorem boyle_product:
  assumes "mode s1 = BOYLE" "mode s2 = BOYLE"
    and "moles (balloon s1) = Fin n" "moles (balloon s2) = Fin n"
    and "temperature (env s1) = Fin T" "temperature (env s2) = Fin T"
    and "pressure (env s1) = Fin P1" "pressure (env s2) = Fin P2"
    and "0 < P1" "0 < P2"
  shows "pressure (env (fst (simulationLoop dt1 s1))) * volume (balloon (fst (simulationLoop dt1 s1)))
           = pressure (env (fst (simulationLoop dt2 s2))) * volume (balloon (fst (simulationLoop dt2 s2)))
       \<and> pressure (env (fst (simulationLoop dt1 s1))) * volume (balloon (fst (simulationLoop dt1 s1)))
           = Fin (n * 8.314 * T)"
  using assms by (simp add: step_defs)

theorem boyle_product_witness:
  "pressure (env (fst (simulationLoop (Fin 0.016) (sampleState BOYLE False (Fin 0)))))
     * volume (balloon (fst (simulationLoop (Fin 0.016) (sampleState BOYLE False (Fin 0)))))
   = pressure (env (fst (simulationLoop (Fin 0.016)
        (sliderPressureInput (Fin 50000) (sampleState BOYLE False (Fin 0))))))
     * volume (balloon (fst (simulationLoop (Fin 0.016)
        (sliderPressureInput (Fin 50000) (sampleState BOYLE False (Fin 0))))))"
proof -
  let ?s1 = "sampleState BOYLE False (Fin 0)"
  let ?s2 = "sliderPressureInput (Fin 50000) (sampleState BOYLE False (Fin 0))"
  have s2: "?s2 = ?s1\<lparr>env := (env ?s1)\<lparr>pressure := Fin 50000\<rparr>\<rparr>"
    by (simp add: sliderPressureInput_def sampleState_fields)
  have h: "mode ?s1 = BOYLE" "mode ?s2 = BOYLE"
    "moles (balloon ?s1) = Fin 174" "moles (balloon ?s2) = Fin 174"
    "temperature (env ?s1) = Fin 293" "temperature (env ?s2) = Fin 293"
    "pressure (env ?s1) = Fin 101325" "pressure (env ?s2) = Fin 50000"
    "(0::real) < 101325" "(0::real) < 50000"
    unfolding s2 by (simp_all add: sampleState_fields)
  show ?thesis
    using boyle_product[OF h, of "Fin 0.016" "Fin 0.016"] by simp
qed

subsection \<open>C5: the first step of a mission\<close>

text \<open>
  C5. A running mission starts at altitude 0 with velocity 0, with a positive amount of gas
  and a positive total mass (all finite). If the lift the step computes exceeds the weight
  it computes, the velocity after one step of 0.1 s is strictly positive: the drag is 0 at
  rest, and the new velocity is the old one plus (lift - weight + drag) / totalMass times
  0.1, the forces taken in the state the first two sections of the step leave.
\<close>

theorem launch_velocity_positive:
  assumes "mode s = MISSION" "isRunning s"
    and "altitude (env s) = Fin 0" "velocity (balloon s) = Fin 0"
    and "moles (balloon s) = Fin n" "0 < n"
    and "massPayload (balloon s) = Fin mp" "massBalloon (balloon s) = Fin mb"
    and "gravity (env s) = Fin g"
    and "molarMass (gasType (balloon s)) = Fin mg"
    and "0 < mp + mb + n * mg"
    and "gravityForce (gasLaws (environmentUpdate (Fin 0.1) s))
           < liftForce (gasLaws (environmentUpdate (Fin 0.1) s))"
  shows "Fin 0 < velocity (balloon (fst (simulationLoop (Fin 0.1) s)))
       \<and> dragForce (gasLaws (environmentUpdate (Fin 0.1) s)) = Fin 0
       \<and> velocity (balloon (fst (simulationLoop (Fin 0.1) s)))
           = Fin 0 + ((liftForce (gasLaws (environmentUpdate (Fin 0.1) s))
                        - gravityForce (gasLaws (environmentUpdate (Fin 0.1) s))
                        + dragForce (gasLaws (environmentUpdate (Fin 0.1) s)))
                      / totalMass (gasLaws (environmentUpdate (Fin 0.1) s))) * Fin 0.1"
  using assms
  by (simp add: step_defs getAtmosphere_def liftForce_def gravityForce_def totalMass_def
        rhoAir_def dragForce_def minus_jsnum_def)

theorem launch_velocity_positive_witness:
  "gravityForce (gasLaws (environmentUpdate (Fin 0.1) (sampleState MISSION True (Fin 0))))
     < liftForce (gasLaws (environmentUpdate (Fin 0.1) (sampleState MISSION True (Fin 0))))
   \<and> Fin 0 < velocity (balloon (fst (simulationLoop (Fin 0.1) (sampleState MISSION True (Fin 0)))))"
proof -
  let ?s = "sampleState MISSION True (Fin 0)"
  have h: "mode ?s = MISSION" "isRunning ?s"
    "altitude (env ?s) = Fin 0" "velocity (balloon ?s) = Fin 0"
    "moles (balloon ?s) = Fin 174"
    "massPayload (balloon ?s) = Fin 0.5" "massBalloon (balloon ?s) = Fin 0.2"
    "gravity (env ?s) = Fin 9.81"
    "molarMass (gasType (balloon ?s)) = Fin 0.0040026"
    by (simp_all add: sampleState_fields)
  have lift: "gravityForce (gasLaws (environmentUpdate (Fin 0.1) ?s))
           < liftForce (gasLaws (environmentUpdate (Fin 0.1) ?s))"
    unfolding launch_forces[OF h] by simp
  have pos: "(0::real) < 174" "(0::real) < 0.5 + 0.2 + 174 * 0.0040026"
    by simp_all
  show ?thesis
    using launch_velocity_positive[OF h(1-5) pos(1) h(6-9) pos(2) lift] lift by blast
qed

subsection \<open>C6: the burst check\<close>

text \<open>
  C6, as stated, fails: the burst is not reported once per crossing. In \<open>burstState\<close>
  the radius is above the limit of 5 m; two frames in a row report the burst, and the
  radius has not gone below the limit between them.
\<close>

theorem burst_reported_twice:
  "explosions [Frame (Fin 16), Frame (Fin 32)] (Fin 0, burstState) = [True, True]"
proof -
  let ?s1 = "(gasLaws burstState)\<lparr>isRunning := False,
                animation := (animation burstState)\<lparr>active := False\<rparr>\<rparr>"
  have f1: "animate (Fin 16) (Fin 0, burstState) = (Fin 16, ?s1, True)"
    using burstState_bursts
    by (simp add: animate_still burstState_fields)
  have b2: "maxRadius (balloon (gasLaws ?s1)) \<le> radius (balloon (gasLaws ?s1))"
    using burstState_bursts by (simp add: gasLaws_again)
  have f2: "snd (snd (animate (Fin 32) (Fin 16, ?s1))) = True"
    using b2 by (simp add: animate_still gasLaws_frame burstState_fields)
  show ?thesis
    by (simp add: f1 f2)
qed

text \<open>
  C6, amended. The step reports \<^verbatim>\<open>exploded\<close> exactly when the radius it leaves is at
  least \<^verbatim>\<open>maxRadius\<close>; the check writes nothing, so the state returned is the one the
  first three sections produced, with the mode, the running flag, the amount of gas and
  the limit as before the step. Outside a running mission a further step returns the same
  state and the same report: the burst is reported at every step, not once.
\<close>

theorem burst_reported_at_every_step:
  "snd (simulationLoop dt s)
     = (maxRadius (balloon (fst (simulationLoop dt s))) \<le> radius (balloon (fst (simulationLoop dt s))))
   \<and> fst (simulationLoop dt s) = forcesAndMovement dt (gasLaws (environmentUpdate dt s))
   \<and> mode (fst (simulationLoop dt s)) = mode s
   \<and> isRunning (fst (simulationLoop dt s)) = isRunning s
   \<and> moles (balloon (fst (simulationLoop dt s))) = moles (balloon s)
   \<and> maxRadius (balloon (fst (simulationLoop dt s))) = maxRadius (balloon s)
   \<and> (\<not> (mode s = MISSION \<and> isRunning s) \<longrightarrow>
        simulationLoop dt' (fst (simulationLoop dt s)) = simulationLoop dt s)"
proof -
  have a: "snd (simulationLoop dt s)
     = (maxRadius (balloon (fst (simulationLoop dt s))) \<le> radius (balloon (fst (simulationLoop dt s))))"
    and b: "fst (simulationLoop dt s) = forcesAndMovement dt (gasLaws (environmentUpdate dt s))"
    by (simp_all add: simulationLoop_def Let_def)
  have c: "simulationLoop dt' (fst (simulationLoop dt s)) = simulationLoop dt s"
    if still: "\<not> (mode s = MISSION \<and> isRunning s)"
  proof -
    have "\<not> (mode (gasLaws s) = MISSION \<and> isRunning (gasLaws s))"
      using still by (simp add: gasLaws_frame)
    then show ?thesis
      by (simp add: simulationLoop_still[OF still] simulationLoop_still gasLaws_idem)
  qed
  show ?thesis
    using a b c simulationLoop_frame by blast
qed

theorem burst_reported_at_every_step_witness:
  "\<not> (mode burstState = MISSION \<and> isRunning burstState)
   \<and> snd (simulationLoop (Fin 0.016) burstState)
   \<and> simulationLoop (Fin 0.016) (fst (simulationLoop (Fin 0.016) burstState))
       = simulationLoop (Fin 0.016) burstState"
proof -
  have h: "\<not> (mode burstState = MISSION \<and> isRunning burstState)"
    by (simp add: burstState_fields)
  have b: "snd (simulationLoop (Fin 0.016) burstState)"
    using burstState_bursts by (simp add: simulationLoop_still[OF h])
  show ?thesis
    using burst_reported_at_every_step[of "Fin 0.016" burstState "Fin 0.016"] h b by blast
qed

subsection \<open>C7: the floor\<close>

text \<open>
  C7. From a state with finite altitude a and velocity v, and for a finite time step d:
  if the mission is running and a + v d is negative, the step leaves altitude, positionY and
  velocity at 0; and in every mode, if a is at least 0 then so is the altitude after the
  step.
\<close>

theorem floor_collision:
  assumes "altitude (env s) = Fin a" "velocity (balloon s) = Fin v"
  shows "(mode s = MISSION \<and> isRunning s \<and> a + v * d < 0 \<longrightarrow>
            altitude (env (fst (simulationLoop (Fin d) s))) = Fin 0
          \<and> positionY (balloon (fst (simulationLoop (Fin d) s))) = Fin 0
          \<and> velocity (balloon (fst (simulationLoop (Fin d) s))) = Fin 0)
       \<and> (0 \<le> a \<longrightarrow> Fin 0 \<le> altitude (env (fst (simulationLoop (Fin d) s))))"
  using assms by (simp add: step_defs)

theorem floor_collision_witness:
  "altitude (env (fst (simulationLoop (Fin 0.1) (sampleState MISSION True (Fin (- 2)))))) = Fin 0
   \<and> positionY (balloon (fst (simulationLoop (Fin 0.1) (sampleState MISSION True (Fin (- 2)))))) = Fin 0
   \<and> velocity (balloon (fst (simulationLoop (Fin 0.1) (sampleState MISSION True (Fin (- 2)))))) = Fin 0
   \<and> Fin 0 \<le> altitude (env (fst (simulationLoop (Fin 0.1) (sampleState MISSION True (Fin (- 2))))))"
proof -
  let ?s = "sampleState MISSION True (Fin (- 2))"
  have h: "altitude (env ?s) = Fin 0" "velocity (balloon ?s) = Fin (- 2)"
    by (simp_all add: sampleState_fields)
  have m: "mode ?s = MISSION \<and> isRunning ?s \<and> (0::real) + (- 2) * 0.1 < 0" "(0::real) \<le> 0"
    by (simp_all add: sampleState_fields)
  show ?thesis
    using floor_collision[OF h, of "0.1"] m by blast
qed

subsection \<open>C8: the cap on the time step\<close>

text \<open>
  C8, as stated, fails: \<^verbatim>\<open>simulationLoop\<close> does not cap its argument. In a running
  mission climbing at 1 m/s from the ground, a step of 1 s raises the altitude by 1 m; with
  the argument capped at 0.1 s it would be 0.1 m.
\<close>

theorem step_uses_dt_uncapped:
  "altitude (env (fst (simulationLoop (Fin 1) flightState))) = Fin 1
   \<and> altitude (env (fst (simulationLoop (Math_min (Fin 1) (Fin 0.1)) flightState))) = Fin 0.1"
proof -
  have h: "mode flightState = MISSION" "isRunning flightState"
    "altitude (env flightState) = Fin 0" "velocity (balloon flightState) = Fin 1"
    by (simp_all add: flightState_def sampleState_fields)
  show ?thesis
    by (simp add: mission_altitude[OF h])
qed

text \<open>
  C8, amended. The cap is in \<^verbatim>\<open>animate\<close>: for finite frame times the time step of
  the frame is min ((currentTime - lastTime) / 1000, 0.1), which is at most 0.1, and the
  whole frame runs with it: the state and the report of the frame are those of the ramp
  update and of the step at that capped time step, with the running flag and the ramp
  cleared when the step reports a burst.
\<close>

theorem animate_caps_deltaTime:
  "frameDeltaTime (Fin t) (Fin t0) = Fin (min ((t - t0) / 1000) 0.1)
   \<and> frameDeltaTime (Fin t) (Fin t0) \<le> Fin 0.1
   \<and> snd (snd (animate (Fin t) (Fin t0, s)))
       = snd (simulationLoop (frameDeltaTime (Fin t) (Fin t0))
               (animationUpdate (frameDeltaTime (Fin t) (Fin t0)) s))
   \<and> animate (Fin t) (Fin t0, s) =
       (Fin t,
        (if snd (simulationLoop (Fin (min ((t - t0) / 1000) 0.1))
                  (animationUpdate (Fin (min ((t - t0) / 1000) 0.1)) s))
         then (fst (simulationLoop (Fin (min ((t - t0) / 1000) 0.1))
                     (animationUpdate (Fin (min ((t - t0) / 1000) 0.1)) s)))
                \<lparr>isRunning := False,
                 animation := (animation (fst (simulationLoop (Fin (min ((t - t0) / 1000) 0.1))
                     (animationUpdate (Fin (min ((t - t0) / 1000) 0.1)) s))))\<lparr>active := False\<rparr>\<rparr>
         else fst (simulationLoop (Fin (min ((t - t0) / 1000) 0.1))
                    (animationUpdate (Fin (min ((t - t0) / 1000) 0.1)) s))),
        snd (simulationLoop (Fin (min ((t - t0) / 1000) 0.1))
              (animationUpdate (Fin (min ((t - t0) / 1000) 0.1)) s)))"
proof -
  have d: "frameDeltaTime (Fin t) (Fin t0) = Fin (min ((t - t0) / 1000) 0.1)"
    by (simp add: frameDeltaTime_def minus_jsnum_def min_def)
  have le: "frameDeltaTime (Fin t) (Fin t0) \<le> Fin 0.1"
    unfolding d by simp
  show ?thesis
    unfolding animate_def Let_def fst_conv snd_conv
    using le by (simp only: d)
qed

theorem animate_caps_deltaTime_witness:
  "frameDeltaTime (Fin 1000) (Fin 0) = Fin 0.1 \<and> frameDeltaTime (Fin 1000) (Fin 0) \<le> Fin 0.1
   \<and> altitude (env (fst (snd (animate (Fin 1000) (Fin 0, flightState))))) = Fin 0.1"
proof -
  have h: "mode flightState = MISSION" "isRunning flightState"
    "altitude (env flightState) = Fin 0" "velocity (balloon flightState) = Fin 1"
    by (simp_all add: flightState_def sampleState_fields)
  have i: "animationUpdate (Fin 0.1) flightState = flightState"
    by (rule animationUpdate_inactive) (simp add: flightState_def sampleState_def initialState_def)
  have a: "altitude (env (fst (simulationLoop (Fin 0.1) flightState))) = Fin 0.1"
    by (simp add: mission_altitude[OF h])
  have m: "min ((1000 - 0) / 1000) (0.1::real) = 0.1"
    by simp
  show ?thesis
    using animate_caps_deltaTime[of 1000 0 flightState] a
    unfolding m i by (auto split: if_splits)
qed

subsection \<open>C9: the filling scenario\<close>

text \<open>
  C9, as stated, fails: filling at 101325 Pa, 293 K and a radius of 1 m gives more than
  174.2 mol, not about 172.5 mol.
\<close>

theorem fill_scenario_moles_above_174:
  "Fin 174.2 < moles (balloon (recalculateMoles (Fin 1.0) (Fin 101325) (Fin 293) initialState))"
proof -
  have m: "moles (balloon (recalculateMoles (Fin 1.0) (Fin 101325) (Fin 293) initialState))
         = Fin (101325 * (4 / 3 * pi) / (8.314 * 293))"
    using filledState_fields(9) by (simp add: filledState_def)
  show ?thesis
    unfolding m using pi_bounds(1) by simp
qed

text \<open>
  C9, amended. Filling at 101325 Pa, 293 K and a radius of 1 m gives between 174.22 and
  174.24 mol, from a volume between 4.188 and 4.189 cubic metres; a step in free mode at
  the same pressure and temperature then gives the radius 1 m.
\<close>

theorem fill_scenario:
  "Fin 174.22 < moles (balloon (recalculateMoles (Fin 1.0) (Fin 101325) (Fin 293) initialState))
   \<and> moles (balloon (recalculateMoles (Fin 1.0) (Fin 101325) (Fin 293) initialState)) < Fin 174.24
   \<and> Fin 4.188 < volume (balloon (recalculateMoles (Fin 1.0) (Fin 101325) (Fin 293) initialState))
   \<and> volume (balloon (recalculateMoles (Fin 1.0) (Fin 101325) (Fin 293) initialState)) < Fin 4.189
   \<and> radius (balloon (fst (simulationLoop dt
        (recalculateMoles (Fin 1.0) (Fin 101325) (Fin 293) initialState)))) = Fin 1.0"
proof -
  have m: "moles (balloon (recalculateMoles (Fin 1.0) (Fin 101325) (Fin 293) initialState))
         = Fin (101325 * (4 / 3 * pi) / (8.314 * 293))"
    and v: "volume (balloon (recalculateMoles (Fin 1.0) (Fin 101325) (Fin 293) initialState))
         = Fin (4 / 3 * pi)"
    using filledState_fields(8,9) by (simp_all add: filledState_def)
  have r: "radius (balloon (gasLaws filledState))
        = Math_pow (Fin (3 * (101325 * (4 / 3 * pi) / (8.314 * 293) * 8.314 * 293 / 101325) / (4 * pi)))
            (Fin (1 / 3))"
    by (rule gasLaws_finite(2)) (simp_all add: filledState_fields)
  have "radius (balloon (fst (simulationLoop dt filledState))) = Fin 1"
    by (simp add: simulationLoop_still filledState_fields r)
  then show ?thesis
    unfolding m v using pi_bounds by (simp add: filledState_def)
qed

subsection \<open>C10: no new burst in Gay-Lussac mode\<close>

text \<open>
  C10. In Gay-Lussac mode a step reports \<^verbatim>\<open>exploded\<close> exactly when the radius before
  the step is at least \<^verbatim>\<open>maxRadius\<close>, and leaves the radius as it is. Over every
  sequence of frames, slider movements and ramp starts and stops from such a state, every
  frame reports the same as the first state would, and the radius never changes: a balloon
  below its limit never bursts.
\<close>

theorem gay_lussac_burst_from_radius:
  assumes "mode s = GAY_LUSSAC"
  shows "snd (simulationLoop dt s) = (maxRadius (balloon s) \<le> radius (balloon s))
       \<and> radius (balloon (fst (simulationLoop dt s))) = radius (balloon s)
       \<and> (\<forall>x \<in> set (explosions es (lastTime, s)). x = (maxRadius (balloon s) \<le> radius (balloon s)))
       \<and> radius (balloon (snd (runEvents es (lastTime, s)))) = radius (balloon s)"
  using assms gay_lussac_step[OF assms, of dt] explosions_gay_lussac[of "(lastTime, s)" es]
    runEvents_gay_lussac[of "(lastTime, s)" es]
  by simp

theorem gay_lussac_burst_from_radius_witness:
  "mode gayLussacStart = GAY_LUSSAC
   \<and> snd (simulationLoop (Fin 0.016) gayLussacStart) = False
   \<and> explosions [StartEdu 1, Frame (Fin 16), SliderTemp (Fin 450), Frame (Fin 32)]
         (Fin 0, gayLussacStart) = [False, False]
   \<and> radius (balloon (snd (runEvents [StartEdu 1, Frame (Fin 16), SliderTemp (Fin 450), Frame (Fin 32)]
                    (Fin 0, gayLussacStart)))) = Fin 1"
proof -
  have m: "mode gayLussacStart = GAY_LUSSAC"
    by (simp add: gayLussacStart_fields)
  have no: "(maxRadius (balloon gayLussacStart) \<le> radius (balloon gayLussacStart)) = False"
    by (simp add: gayLussacStart_fields)
  show ?thesis
    using gay_lussac_burst_from_radius[OF m, of "Fin 0.016"
        "[StartEdu 1, Frame (Fin 16), SliderTemp (Fin 450), Frame (Fin 32)]" "Fin 0"]
    unfolding no by (simp add: gayLussacStart_fields)
qed

end
